theory Spec2Isabelle
  imports Main "HOL-Library.Word" "HOL-Library.Finite_Map"
begin

unbundle bit_operations_syntax

section \<open>The mock Git client of \<^verbatim>\<open>src/client/interface.go\<close>\<close>

text \<open>
  The file holds the \<^verbatim>\<open>GitClient\<close> interface and its in-memory test double
  \<^verbatim>\<open>MockClient\<close>. The embedding follows the Go text method by method.

  \<^item> A Go \<^verbatim>\<open>string\<close> is a \<^typ>\<open>string\<close>; a \<^verbatim>\<open>[]byte\<close> is either \<^verbatim>\<open>nil\<close> or a
    sequence of bytes, hence \<open>byte list option\<close> with \<^term>\<open>None\<close> for \<^verbatim>\<open>nil\<close>.
  \<^item> A Go \<^verbatim>\<open>map[string]V\<close> is a finite map \<open>(string, V) fmap\<close>; \<^verbatim>\<open>len\<close> of it is the
    number of its keys.
  \<^item> A Go \<^verbatim>\<open>error\<close> is \<open>error option\<close>, \<^term>\<open>None\<close> for \<^verbatim>\<open>nil\<close>.
  \<^item> A method with a pointer receiver takes the client and returns it again next to
    its Go results.
  \<^item> \<^verbatim>\<open>t.Fatalf\<close> ends the running test: an assertion method returns \<^term>\<open>None\<close>
    when it returns normally and the \<^verbatim>\<open>Fatalf\<close> call otherwise.
  \<^item> The \<^verbatim>\<open>context.Context\<close> argument is used by no method and is left out.
  \<^item> Slices and pull-request inputs are taken by value: the development does not
    follow a caller that writes through a slice or pointer after handing it over.
\<close>

subsection \<open>Values of the imported packages\<close>

type_synonym byte = "8 word"

type_synonym bytes = "byte list option"

text \<open>
  \<^verbatim>\<open>errors.New(s)\<close> and the sentinel \<^verbatim>\<open>scm.ErrNotSupported\<close> of the imported
  \<^verbatim>\<open>scm\<close> package.
\<close>

datatype error = errors_New string | ErrNotSupported

text \<open>\<^verbatim>\<open>scm.Content\<close> and \<^verbatim>\<open>scm.PullRequest\<close>, with the fields this file sets.\<close>

record Content =
  Data :: bytes
  Sha :: string

record PullRequest =
  Number :: int
  Link :: string

text \<open>
  \<^verbatim>\<open>*scm.PullRequestInput\<close> and \<^verbatim>\<open>scm.Signature\<close> are declared outside this file;
  they are the type parameters \<open>'inp\<close> and \<open>'sig\<close>. Equality on \<open>'inp\<close> stands for
  \<^verbatim>\<open>reflect.DeepEqual\<close> on two such pointers.
\<close>

subsection \<open>\<^verbatim>\<open>strings.Join\<close> and \<^verbatim>\<open>key\<close>\<close>

fun strings_Join :: "string list \<Rightarrow> string \<Rightarrow> string" where
  "strings_Join [] sep = []"
| "strings_Join [x] sep = x"
| "strings_Join (x # y # ys) sep = x @ sep @ strings_Join (y # ys) sep"

definition key :: "string list \<Rightarrow> string" where
  "key s = strings_Join s '':''"

subsection \<open>\<^verbatim>\<open>fmt.Sprintf\<close> with \<^verbatim>\<open>%d\<close> and \<^verbatim>\<open>%x\<close>\<close>

definition digit :: "nat \<Rightarrow> char" where
  "digit n = ''0123456789abcdef'' ! n"

fun fmt_nat :: "nat \<Rightarrow> string" where
  "fmt_nat n = (if n < 10 then [digit n] else fmt_nat (n div 10) @ [digit (n mod 10)])"

definition fmt_d :: "int \<Rightarrow> string" where
  "fmt_d i = (if i < 0 then CHR ''-'' # fmt_nat (nat (- i)) else fmt_nat (nat i))"

definition fmt_x_byte :: "byte \<Rightarrow> string" where
  "fmt_x_byte b = [digit (unat b div 16), digit (unat b mod 16)]"

definition fmt_x :: "byte list \<Rightarrow> string" where
  "fmt_x bs = concat (map fmt_x_byte bs)"

subsection \<open>\<^verbatim>\<open>crypto/sha1\<close>\<close>

text \<open>
  The SHA-1 function of FIPS 180-4, which \<^verbatim>\<open>sha1.New\<close>, \<^verbatim>\<open>Write\<close> and \<^verbatim>\<open>Sum(nil)\<close>
  compute: padding to a multiple of 64 bytes, the 80-word message schedule, 80
  rounds per block, and the five state words written big-endian.
\<close>

definition sha1_pad :: "byte list \<Rightarrow> byte list" where
  "sha1_pad msg =
     msg @ [0x80] @ replicate ((119 - length msg mod 64) mod 64) 0
       @ map (\<lambda>i. ucast (drop_bit (8 * (7 - i)) (word_of_nat (8 * length msg) :: 64 word)))
           [0..<8]"

fun sha1_blocks :: "nat \<Rightarrow> byte list \<Rightarrow> byte list list" where
  "sha1_blocks 0 bs = []"
| "sha1_blocks (Suc n) bs = take 64 bs # sha1_blocks n (drop 64 bs)"

definition be32 :: "byte list \<Rightarrow> 32 word" where
  "be32 bs = foldl (\<lambda>acc b. push_bit 8 acc OR ucast b) 0 (take 4 bs)"

fun sha1_words :: "nat \<Rightarrow> byte list \<Rightarrow> 32 word list" where
  "sha1_words 0 bs = []"
| "sha1_words (Suc n) bs = be32 bs # sha1_words n (drop 4 bs)"

fun sha1_schedule :: "nat \<Rightarrow> 32 word list \<Rightarrow> 32 word list" where
  "sha1_schedule 0 w = w"
| "sha1_schedule (Suc n) w =
     sha1_schedule n
       (w @ [word_rotl 1 (w ! (length w - 3) XOR w ! (length w - 8)
                          XOR w ! (length w - 14) XOR w ! (length w - 16))])"

type_synonym sha1_state = "32 word \<times> 32 word \<times> 32 word \<times> 32 word \<times> 32 word"

definition sha1_f :: "nat \<Rightarrow> 32 word \<Rightarrow> 32 word \<Rightarrow> 32 word \<Rightarrow> 32 word" where
  "sha1_f t b c d =
     (if t < 20 then (b AND c) OR (NOT b AND d)
      else if t < 40 then b XOR c XOR d
      else if t < 60 then (b AND c) OR (b AND d) OR (c AND d)
      else b XOR c XOR d)"

definition sha1_k :: "nat \<Rightarrow> 32 word" where
  "sha1_k t =
     (if t < 20 then 0x5A827999
      else if t < 40 then 0x6ED9EBA1
      else if t < 60 then 0x8F1BBCDC
      else 0xCA62C1D6)"

fun sha1_round :: "32 word list \<Rightarrow> sha1_state \<Rightarrow> nat \<Rightarrow> sha1_state" where
  "sha1_round w (a, b, c, d, e) t =
     (word_rotl 5 a + sha1_f t b c d + e + sha1_k t + w ! t, a, word_rotl 30 b, c, d)"

fun sha1_block :: "sha1_state \<Rightarrow> byte list \<Rightarrow> sha1_state" where
  "sha1_block (h0, h1, h2, h3, h4) blk =
     (case foldl (sha1_round (sha1_schedule 64 (sha1_words 16 blk))) (h0, h1, h2, h3, h4) [0..<80]
      of (a, b, c, d, e) \<Rightarrow> (h0 + a, h1 + b, h2 + c, h3 + d, h4 + e))"

definition sha1_init :: sha1_state where
  "sha1_init = (0x67452301, 0xEFCDAB89, 0x98BADCFE, 0x10325476, 0xC3D2E1F0)"

definition be_bytes :: "32 word \<Rightarrow> byte list" where
  "be_bytes w = [ucast (drop_bit 24 w), ucast (drop_bit 16 w), ucast (drop_bit 8 w), ucast w]"

definition sha1_Sum :: "byte list \<Rightarrow> byte list" where
  "sha1_Sum msg =
     (case foldl sha1_block sha1_init (sha1_blocks (length (sha1_pad msg) div 64) (sha1_pad msg))
      of (h0, h1, h2, h3, h4) \<Rightarrow>
        be_bytes h0 @ be_bytes h1 @ be_bytes h2 @ be_bytes h3 @ be_bytes h4)"

subsection \<open>\<^verbatim>\<open>bytesSha1\<close>\<close>

text \<open>Writing a \<^verbatim>\<open>nil\<close> slice to the hash writes no byte.\<close>

fun bytes_of :: "bytes \<Rightarrow> byte list" where
  "bytes_of None = []"
| "bytes_of (Some bs) = bs"

definition bytesSha1 :: "bytes \<Rightarrow> string" where
  "bytesSha1 b = fmt_x (sha1_Sum (bytes_of b))"

subsection \<open>\<^verbatim>\<open>MockClient\<close> and \<^verbatim>\<open>New\<close>\<close>

record 'inp MockClient =
  files :: "(string, bytes) fmap"
  GetFileErr :: "error option"
  updatedFiles :: "(string, bytes) fmap"
  UpdateFileErr :: "error option"
  createdBranches :: "(string, bool) fmap"
  CreateBranchErr :: "error option"
  branchHeads :: "(string, string) fmap"
  createdPullRequests :: "(string, 'inp list) fmap"
  CreatePullRequestErr :: "error option"

definition New :: "'inp MockClient" where
  "New = \<lparr> files = fmempty, GetFileErr = None,
           updatedFiles = fmempty, UpdateFileErr = None,
           createdBranches = fmempty, CreateBranchErr = None,
           branchHeads = fmempty,
           createdPullRequests = fmempty, CreatePullRequestErr = None \<rparr>"

text \<open>\<^verbatim>\<open>len\<close> of a Go map.\<close>

definition len :: "(string, 'v) fmap \<Rightarrow> nat" where
  "len tbl = fcard (fmdom tbl)"

subsection \<open>The \<^verbatim>\<open>GitClient\<close> methods\<close>

definition GetFile ::
  "'inp MockClient \<Rightarrow> string \<Rightarrow> string \<Rightarrow> string
     \<Rightarrow> (Content option \<times> error option) \<times> 'inp MockClient" where
  "GetFile m repo ref path =
     (case GetFileErr m of
        Some e \<Rightarrow> ((Some \<lparr> Data = None, Sha = [] \<rparr>, Some e), m)
      | None \<Rightarrow>
          (case fmlookup (files m) (key [repo, path, ref]) of
             Some b \<Rightarrow> ((Some \<lparr> Data = b, Sha = bytesSha1 b \<rparr>, None), m)
           | None \<Rightarrow> ((None, Some (errors_New ''not found'')), m)))"

definition UpdateFile ::
  "'inp MockClient \<Rightarrow> string \<Rightarrow> string \<Rightarrow> string \<Rightarrow> string \<Rightarrow> string \<Rightarrow> 'sig \<Rightarrow> bytes
     \<Rightarrow> error option \<times> 'inp MockClient" where
  "UpdateFile m repo branch path message previousSHA signature content =
     (case UpdateFileErr m of
        Some e \<Rightarrow> (Some e, m)
      | None \<Rightarrow>
          (None, m\<lparr> updatedFiles := fmupd (key [repo, path, branch]) content (updatedFiles m) \<rparr>))"

definition DeleteFile ::
  "'inp MockClient \<Rightarrow> string \<Rightarrow> string \<Rightarrow> string \<Rightarrow> string \<Rightarrow> string \<Rightarrow> 'sig \<Rightarrow> bytes
     \<Rightarrow> error option \<times> 'inp MockClient" where
  "DeleteFile c repo branch path message previousSHA signature content =
     (Some ErrNotSupported, c)"

definition CreatePullRequest ::
  "'inp MockClient \<Rightarrow> string \<Rightarrow> 'inp
     \<Rightarrow> (PullRequest option \<times> error option) \<times> 'inp MockClient" where
  "CreatePullRequest m repo inp =
     (case CreatePullRequestErr m of
        Some e \<Rightarrow> ((None, Some e), m)
      | None \<Rightarrow>
          (let existing = (case fmlookup (createdPullRequests m) repo of
                             Some prs \<Rightarrow> prs
                           | None \<Rightarrow> []);
               existing = existing @ [inp];
               m' = m\<lparr> createdPullRequests := fmupd repo existing (createdPullRequests m) \<rparr>;
               number = int (length existing)
           in ((Some \<lparr> Number = number,
                       Link = ''https://example.com/pull-request/'' @ fmt_d number \<rparr>, None),
               m')))"

definition CreateBranch ::
  "'inp MockClient \<Rightarrow> string \<Rightarrow> string \<Rightarrow> string \<Rightarrow> error option \<times> 'inp MockClient" where
  "CreateBranch m repo branch sha =
     (case CreateBranchErr m of
        Some e \<Rightarrow> (Some e, m)
      | None \<Rightarrow>
          (None, m\<lparr> createdBranches := fmupd (key [repo, branch, sha]) True (createdBranches m) \<rparr>))"

definition GetBranchHead ::
  "'inp MockClient \<Rightarrow> string \<Rightarrow> string \<Rightarrow> (string \<times> error option) \<times> 'inp MockClient" where
  "GetBranchHead m repo branch =
     (case fmlookup (branchHeads m) (key [repo, branch]) of
        None \<Rightarrow> (([], Some (errors_New ''not found'')), m)
      | Some ref \<Rightarrow> ((ref, None), m))"

subsection \<open>Fixtures and captured contents\<close>

definition AddFileContents ::
  "'inp MockClient \<Rightarrow> string \<Rightarrow> string \<Rightarrow> string \<Rightarrow> bytes \<Rightarrow> 'inp MockClient" where
  "AddFileContents m repo path ref body =
     m\<lparr> files := fmupd (key [repo, path, ref]) body (files m) \<rparr>"

definition GetUpdatedContents ::
  "'inp MockClient \<Rightarrow> string \<Rightarrow> string \<Rightarrow> string \<Rightarrow> bytes" where
  "GetUpdatedContents m repo path ref =
     (case fmlookup (updatedFiles m) (key [repo, path, ref]) of
        Some c \<Rightarrow> c
      | None \<Rightarrow> None)"

definition AddBranchHead ::
  "'inp MockClient \<Rightarrow> string \<Rightarrow> string \<Rightarrow> string \<Rightarrow> 'inp MockClient" where
  "AddBranchHead m repo branch sha =
     m\<lparr> branchHeads := fmupd (key [repo, branch]) sha (branchHeads m) \<rparr>"

subsection \<open>Assertions\<close>

text \<open>A \<^verbatim>\<open>t.Fatalf\<close> call: its format string and its arguments.\<close>

datatype 'inp fmt_arg =
    ArgS string
  | ArgD int
  | ArgFiles "(string, bytes) fmap"
  | ArgBranches "(string, bool) fmap"
  | ArgPullRequests "(string, 'inp list) fmap"

datatype 'inp fatal = Fatalf string "'inp fmt_arg list"

definition AssertBranchCreated ::
  "'inp MockClient \<Rightarrow> string \<Rightarrow> string \<Rightarrow> string \<Rightarrow> 'inp fatal option" where
  "AssertBranchCreated m repo branch sha =
     (case fmlookup (createdBranches m) (key [repo, branch, sha]) of
        None \<Rightarrow> Some (Fatalf ''branch %s not created in repo %s from sha %s''
                        [ArgS branch, ArgS repo, ArgS sha])
      | Some _ \<Rightarrow> None)"

definition RefuteBranchCreated ::
  "'inp MockClient \<Rightarrow> string \<Rightarrow> string \<Rightarrow> string \<Rightarrow> 'inp fatal option" where
  "RefuteBranchCreated m repo branch sha =
     (case fmlookup (createdBranches m) (key [repo, branch, sha]) of
        Some _ \<Rightarrow> Some (Fatalf ''branch %s was created in repo %s from sha %s''
                          [ArgS branch, ArgS repo, ArgS sha])
      | None \<Rightarrow> None)"

text \<open>Indexing a map at a missing key gives the zero value: here the \<^verbatim>\<open>nil\<close> slice.\<close>

definition pullRequestsOf :: "'inp MockClient \<Rightarrow> string \<Rightarrow> 'inp list" where
  "pullRequestsOf m repo =
     (case fmlookup (createdPullRequests m) repo of Some prs \<Rightarrow> prs | None \<Rightarrow> [])"

fun AssertPullRequestCreated_range :: "string \<Rightarrow> 'inp \<Rightarrow> 'inp list \<Rightarrow> 'inp fatal option" where
  "AssertPullRequestCreated_range repo inp [] =
     Some (Fatalf ''pullrequest not created in repo %s'' [ArgS repo])"
| "AssertPullRequestCreated_range repo inp (pr # prs) =
     (if inp = pr then None else AssertPullRequestCreated_range repo inp prs)"

definition AssertPullRequestCreated ::
  "'inp MockClient \<Rightarrow> string \<Rightarrow> 'inp \<Rightarrow> 'inp fatal option" where
  "AssertPullRequestCreated m repo inp =
     AssertPullRequestCreated_range repo inp (pullRequestsOf m repo)"

fun RefutePullRequestCreated_range :: "string \<Rightarrow> 'inp \<Rightarrow> 'inp list \<Rightarrow> 'inp fatal option" where
  "RefutePullRequestCreated_range repo inp [] = None"
| "RefutePullRequestCreated_range repo inp (pr # prs) =
     (if inp = pr then Some (Fatalf ''pullrequest was created in repo %s'' [ArgS repo])
      else RefutePullRequestCreated_range repo inp prs)"

definition RefutePullRequestCreated ::
  "'inp MockClient \<Rightarrow> string \<Rightarrow> 'inp \<Rightarrow> 'inp fatal option" where
  "RefutePullRequestCreated m repo inp =
     RefutePullRequestCreated_range repo inp (pullRequestsOf m repo)"

definition AssertNoBranchesCreated :: "'inp MockClient \<Rightarrow> 'inp fatal option" where
  "AssertNoBranchesCreated m =
     (let l = len (createdBranches m)
      in if l > 0 then Some (Fatalf ''expected no branches to be created: got %d'' [ArgD (int l)])
         else None)"

definition AssertNoPullRequestsCreated :: "'inp MockClient \<Rightarrow> 'inp fatal option" where
  "AssertNoPullRequestsCreated m =
     (let l = len (createdPullRequests m)
      in if l > 0
         then Some (Fatalf ''expected no PullRequests to be created: got %d'' [ArgD (int l)])
         else None)"

definition AssertNoInteractions :: "'inp MockClient \<Rightarrow> 'inp fatal option" where
  "AssertNoInteractions m =
     (if len (updatedFiles m) \<noteq> 0
      then Some (Fatalf ''files were updated %#v'' [ArgFiles (updatedFiles m)])
      else if len (createdBranches m) \<noteq> 0
      then Some (Fatalf ''branches created %#v'' [ArgBranches (createdBranches m)])
      else if len (createdPullRequests m) \<noteq> 0
      then Some (Fatalf ''pull requests created %#v'' [ArgPullRequests (createdPullRequests m)])
      else None)"

subsection \<open>Test scripts\<close>

text \<open>
  A test drives one client through a sequence of calls. The calls are the six
  \<^verbatim>\<open>GitClient\<close> methods, the two fixture methods, and the assignments to the four
  exported error fields. \<open>perform\<close> runs one call and gives what the method returns
  together with the client after it; \<open>script\<close> runs a sequence of calls and pairs every
  call with what it returned.
\<close>

datatype ('inp, 'sig) call =
    GetFileCall string string string
  | UpdateFileCall string string string string string 'sig bytes
  | DeleteFileCall string string string string string 'sig bytes
  | CreatePullRequestCall string 'inp
  | CreateBranchCall string string string
  | GetBranchHeadCall string string
  | AddFileContentsCall string string string bytes
  | AddBranchHeadCall string string string
  | SetGetFileErr "error option"
  | SetUpdateFileErr "error option"
  | SetCreateBranchErr "error option"
  | SetCreatePullRequestErr "error option"

datatype reply =
    ContentReply "Content option" "error option"
  | ErrorReply "error option"
  | PullRequestReply "PullRequest option" "error option"
  | StringReply string "error option"
  | NoReply

fun perform :: "('inp, 'sig) call \<Rightarrow> 'inp MockClient \<Rightarrow> reply \<times> 'inp MockClient" where
  "perform (GetFileCall repo ref path) m =
     (case GetFile m repo ref path of ((c, e), m') \<Rightarrow> (ContentReply c e, m'))"
| "perform (UpdateFileCall repo branch path message previousSHA signature content) m =
     (case UpdateFile m repo branch path message previousSHA signature content of
        (e, m') \<Rightarrow> (ErrorReply e, m'))"
| "perform (DeleteFileCall repo branch path message previousSHA signature content) m =
     (case DeleteFile m repo branch path message previousSHA signature content of
        (e, m') \<Rightarrow> (ErrorReply e, m'))"
| "perform (CreatePullRequestCall repo inp) m =
     (case CreatePullRequest m repo inp of ((pr, e), m') \<Rightarrow> (PullRequestReply pr e, m'))"
| "perform (CreateBranchCall repo branch sha) m =
     (case CreateBranch m repo branch sha of (e, m') \<Rightarrow> (ErrorReply e, m'))"
| "perform (GetBranchHeadCall repo branch) m =
     (case GetBranchHead m repo branch of ((ref, e), m') \<Rightarrow> (StringReply ref e, m'))"
| "perform (AddFileContentsCall repo path ref body) m =
     (NoReply, AddFileContents m repo path ref body)"
| "perform (AddBranchHeadCall repo branch sha) m = (NoReply, AddBranchHead m repo branch sha)"
| "perform (SetGetFileErr e) m = (NoReply, m\<lparr> GetFileErr := e \<rparr>)"
| "perform (SetUpdateFileErr e) m = (NoReply, m\<lparr> UpdateFileErr := e \<rparr>)"
| "perform (SetCreateBranchErr e) m = (NoReply, m\<lparr> CreateBranchErr := e \<rparr>)"
| "perform (SetCreatePullRequestErr e) m = (NoReply, m\<lparr> CreatePullRequestErr := e \<rparr>)"

fun script ::
  "('inp, 'sig) call list \<Rightarrow> 'inp MockClient
     \<Rightarrow> (('inp, 'sig) call \<times> reply) list \<times> 'inp MockClient" where
  "script [] m = ([], m)"
| "script (c # cs) m =
     (case perform c m of (r, m') \<Rightarrow>
        (case script cs m' of (log, m'') \<Rightarrow> ((c, r) # log, m'')))"

text \<open>
  What a call of a script recorded in a table of write observations: the key of a
  file update that returned no error, the key of a branch creation that returned no
  error, and the repository, the input and the returned \<^verbatim>\<open>scm.PullRequest\<close> of a
  pull-request creation that returned no error.
\<close>

fun updatedKey :: "('inp, 'sig) call \<times> reply \<Rightarrow> string option" where
  "updatedKey (UpdateFileCall repo branch path message previousSHA signature content,
               ErrorReply None) = Some (key [repo, path, branch])"
| "updatedKey _ = None"

fun branchKey :: "('inp, 'sig) call \<times> reply \<Rightarrow> string option" where
  "branchKey (CreateBranchCall repo branch sha, ErrorReply None) = Some (key [repo, branch, sha])"
| "branchKey _ = None"

fun pullRequestCreated ::
  "('inp, 'sig) call \<times> reply \<Rightarrow> (string \<times> 'inp \<times> PullRequest) option" where
  "pullRequestCreated (CreatePullRequestCall repo inp, PullRequestReply (Some pr) None) =
     Some (repo, inp, pr)"
| "pullRequestCreated _ = None"

definition interaction :: "('inp, 'sig) call \<times> reply \<Rightarrow> bool" where
  "interaction x =
     (case updatedKey x of
        Some k \<Rightarrow> True
      | None \<Rightarrow>
          (case branchKey x of
             Some k \<Rightarrow> True
           | None \<Rightarrow> (case pullRequestCreated x of Some p \<Rightarrow> True | None \<Rightarrow> False)))"

text \<open>
  The pull requests a script created in one repository: each input with the
  \<^verbatim>\<open>scm.PullRequest\<close> returned for it, in call order.
\<close>

definition pullRequestsCreated ::
  "string \<Rightarrow> (('inp, 'sig) call \<times> reply) list \<Rightarrow> ('inp \<times> PullRequest) list" where
  "pullRequestsCreated repo log =
     map snd (filter (\<lambda>x. fst x = repo) (List.map_filter pullRequestCreated log))"

text \<open>The value \<^verbatim>\<open>CreatePullRequest\<close> builds for the number \<open>n\<close>.\<close>

definition pullRequestAt :: "nat \<Rightarrow> PullRequest" where
  "pullRequestAt n =
     \<lparr> Number = int n, Link = ''https://example.com/pull-request/'' @ fmt_d (int n) \<rparr>"

text \<open>The key a call seeds a file under, if it seeds one.\<close>

fun seededKey :: "('inp, 'sig) call \<Rightarrow> string option" where
  "seededKey (AddFileContentsCall repo path ref body) = Some (key [repo, path, ref])"
| "seededKey _ = None"

text \<open>The calls the interface calls writes, and the calls that seed fixtures.\<close>

fun is_write :: "('inp, 'sig) call \<Rightarrow> bool" where
  "is_write (UpdateFileCall repo branch path message previousSHA signature content) = True"
| "is_write (CreateBranchCall repo branch sha) = True"
| "is_write (CreatePullRequestCall repo inp) = True"
| "is_write _ = False"

fun is_seed :: "('inp, 'sig) call \<Rightarrow> bool" where
  "is_seed (AddFileContentsCall repo path ref body) = True"
| "is_seed (AddBranchHeadCall repo branch sha) = True"
| "is_seed _ = False"

text \<open>A string without the separator that \<open>key\<close> joins with.\<close>

definition colon_free :: "string \<Rightarrow> bool" where
  "colon_free s = (CHR '':'' \<notin> set s)"

subsection \<open>Two example clients\<close>

text \<open>
  A client with one seeded file, and a client with a seeded file and branch head whose
  four error fields are all set.
\<close>

definition seeded :: "string MockClient" where
  "seeded = AddFileContents New ''r'' ''a.txt'' ''main'' (Some [104, 101, 108, 108, 111])"

definition outage :: "string MockClient" where
  "outage = (AddBranchHead (AddFileContents New ''r'' ''a.txt'' ''main'' (Some [1])) ''r'' ''main'' ''abc'')
     \<lparr>GetFileErr := Some (errors_New ''down''), UpdateFileErr := Some (errors_New ''down''),
      CreateBranchErr := Some (errors_New ''down''),
      CreatePullRequestErr := Some (errors_New ''down'')\<rparr>"

section \<open>Auxiliary facts\<close>

lemmas method_defs =
  GetFile_def UpdateFile_def DeleteFile_def CreatePullRequest_def CreateBranch_def
  GetBranchHead_def AddFileContents_def AddBranchHead_def

subsection \<open>Joined keys\<close>

lemma colon_split:
  "CHR '':'' \<notin> set x \<Longrightarrow> CHR '':'' \<notin> set y \<Longrightarrow> x @ CHR '':'' # r = y @ CHR '':'' # s
     \<Longrightarrow> x = y \<and> r = s"
proof (induction x arbitrary: y)
  case Nil
  then show ?case by (cases y) auto
next
  case (Cons a x)
  then show ?case by (cases y) auto
qed

lemma key3_inject:
  assumes "colon_free a1" "colon_free b1" "colon_free a2" "colon_free b2"
    and "key [a1, b1, c1] = key [a2, b2, c2]"
  shows "a1 = a2 \<and> b1 = b2 \<and> c1 = c2"
proof -
  from assms(5) have eq: "a1 @ CHR '':'' # (b1 @ CHR '':'' # c1) = a2 @ CHR '':'' # (b2 @ CHR '':'' # c2)"
    by (simp add: key_def)
  from colon_split [OF _ _ eq] assms(1,3) have a: "a1 = a2" and r: "b1 @ CHR '':'' # c1 = b2 @ CHR '':'' # c2"
    by (simp_all add: colon_free_def)
  from colon_split [OF _ _ r] assms(2,4) have "b1 = b2 \<and> c1 = c2"
    by (simp add: colon_free_def)
  with a show ?thesis by simp
qed

lemma key2_inject:
  assumes "colon_free a1" "colon_free a2" and "key [a1, b1] = key [a2, b2]"
  shows "a1 = a2 \<and> b1 = b2"
proof -
  from assms(3) have eq: "a1 @ CHR '':'' # b1 = a2 @ CHR '':'' # b2"
    by (simp add: key_def)
  from colon_split [OF _ _ eq] assms(1,2) show ?thesis
    by (simp add: colon_free_def)
qed

subsection \<open>The digest and its rendering\<close>

lemma length_sha1_Sum: "length (sha1_Sum msg) = 20"
  by (simp add: sha1_Sum_def be_bytes_def split: prod.splits)

lemma length_fmt_x: "length (fmt_x bs) = 2 * length bs"
  by (induction bs) (simp_all add: fmt_x_def fmt_x_byte_def)

lemma digit_hex: "n < 16 \<Longrightarrow> digit n \<in> set ''0123456789abcdef''"
  unfolding digit_def by (rule nth_mem) simp

lemma pair_subset: "x \<in> H \<Longrightarrow> y \<in> H \<Longrightarrow> set [x, y] \<subseteq> H"
  by simp

lemma fmt_x_byte_hex: "set (fmt_x_byte b) \<subseteq> set ''0123456789abcdef''"
proof -
  have "unat b < 256" using unsigned_less [of b] by simp
  then have "unat b div 16 < 16" by simp
  then have hi: "digit (unat b div 16) \<in> set ''0123456789abcdef''" by (rule digit_hex)
  have "unat b mod 16 < 16" by simp
  then have lo: "digit (unat b mod 16) \<in> set ''0123456789abcdef''" by (rule digit_hex)
  show ?thesis
    unfolding fmt_x_byte_def by (rule pair_subset [OF hi lo])
qed

lemma fmt_x_hex: "set (fmt_x bs) \<subseteq> set ''0123456789abcdef''"
proof (induction bs)
  case Nil
  show ?case by (simp add: fmt_x_def)
next
  case (Cons b bs)
  have "fmt_x (b # bs) = fmt_x_byte b @ fmt_x bs" by (simp add: fmt_x_def)
  then have "set (fmt_x (b # bs)) = set (fmt_x_byte b) \<union> set (fmt_x bs)" by (simp only: set_append)
  with fmt_x_byte_hex [of b] Cons.IH show ?case by (simp only: Un_least)
qed

subsection \<open>Tables after a script\<close>

lemma len_eq_0: "len tbl = 0 \<longleftrightarrow> fmdom tbl = {||}"
  by (simp add: len_def)

lemma script_Cons_fst:
  "fst (script (c # cs) m) = (c, fst (perform c m)) # fst (script cs (snd (perform c m)))"
  by (simp split: prod.splits)

lemma script_Cons_snd: "snd (script (c # cs) m) = snd (script cs (snd (perform c m)))"
  by (simp split: prod.splits)

lemma updatedFiles_perform:
  "fmdom (updatedFiles (snd (perform c m))) =
     fmdom (updatedFiles m) |\<union>| fset_of_list (List.map_filter updatedKey [(c, fst (perform c m))])"
  by (cases c) (auto simp: method_defs Let_def split: option.splits)

lemma createdBranches_perform:
  "fmdom (createdBranches (snd (perform c m))) =
     fmdom (createdBranches m) |\<union>| fset_of_list (List.map_filter branchKey [(c, fst (perform c m))])"
  by (cases c) (auto simp: method_defs Let_def split: option.splits)

lemma createdPullRequests_perform:
  "fmdom (createdPullRequests (snd (perform c m))) =
     fmdom (createdPullRequests m) |\<union>|
       fset_of_list (map fst (List.map_filter pullRequestCreated [(c, fst (perform c m))]))"
  by (cases c) (auto simp: method_defs Let_def split: option.splits)

lemma map_filter_Cons: "List.map_filter f (x # xs) = List.map_filter f [x] @ List.map_filter f xs"
  by (simp split: option.splits)

lemma updatedFiles_script:
  "fmdom (updatedFiles (snd (script cs m))) =
     fmdom (updatedFiles m) |\<union>| fset_of_list (List.map_filter updatedKey (fst (script cs m)))"
proof (induction cs arbitrary: m)
  case Nil
  show ?case by simp
next
  case (Cons c cs)
  show ?case
    unfolding script_Cons_fst script_Cons_snd Cons.IH updatedFiles_perform
    by (subst (2) map_filter_Cons) auto
qed

lemma createdBranches_script:
  "fmdom (createdBranches (snd (script cs m))) =
     fmdom (createdBranches m) |\<union>| fset_of_list (List.map_filter branchKey (fst (script cs m)))"
proof (induction cs arbitrary: m)
  case Nil
  show ?case by simp
next
  case (Cons c cs)
  show ?case
    unfolding script_Cons_fst script_Cons_snd Cons.IH createdBranches_perform
    by (subst (2) map_filter_Cons) auto
qed

lemma createdPullRequests_script:
  "fmdom (createdPullRequests (snd (script cs m))) =
     fmdom (createdPullRequests m) |\<union>|
       fset_of_list (map fst (List.map_filter pullRequestCreated (fst (script cs m))))"
proof (induction cs arbitrary: m)
  case Nil
  show ?case by simp
next
  case (Cons c cs)
  show ?case
    unfolding script_Cons_fst script_Cons_snd Cons.IH createdPullRequests_perform
    by (subst (2) map_filter_Cons) auto
qed

lemma map_filter_Nil_iff: "List.map_filter f xs = [] \<longleftrightarrow> (\<forall>x\<in>set xs. f x = None)"
  by (induction xs) (auto split: option.splits)

lemma fset_of_list_empty_iff: "fset_of_list xs = {||} \<longleftrightarrow> xs = []"
  by (cases xs) auto

lemma no_interactions_iff:
  "AssertNoInteractions (snd (script cs (New :: 'inp MockClient))) = None \<longleftrightarrow>
     \<not> list_ex interaction (fst (script cs (New :: 'inp MockClient)))"
  by (auto simp: AssertNoInteractions_def len_eq_0 updatedFiles_script createdBranches_script
      createdPullRequests_script New_def fset_of_list_empty_iff map_filter_Nil_iff
      list_ex_iff interaction_def split: option.splits)

subsection \<open>Pull requests after a script\<close>

lemma pullRequestsCreated_Nil [simp]: "pullRequestsCreated repo [] = []"
  by (simp add: pullRequestsCreated_def)

lemma pullRequestsCreated_Cons:
  "pullRequestsCreated repo (x # log) = pullRequestsCreated repo [x] @ pullRequestsCreated repo log"
  by (simp add: pullRequestsCreated_def split: option.splits)

lemma pullRequestsOf_perform:
  "pullRequestsOf (snd (perform c m)) repo =
     pullRequestsOf m repo @ map fst (pullRequestsCreated repo [(c, fst (perform c m))])"
  by (cases c)
     (auto simp: method_defs Let_def pullRequestsOf_def pullRequestsCreated_def
           split: option.splits)

lemma pullRequestsCreated_perform:
  "map snd (pullRequestsCreated repo [(c, fst (perform c m))]) =
     map (\<lambda>inp. pullRequestAt (Suc (length (pullRequestsOf m repo))))
       (map fst (pullRequestsCreated repo [(c, fst (perform c m))]))"
  by (cases c)
     (auto simp: method_defs Let_def pullRequestsOf_def pullRequestsCreated_def pullRequestAt_def
           split: option.splits)

lemma pullRequestsOf_script:
  "pullRequestsOf (snd (script cs m)) repo =
     pullRequestsOf m repo @ map fst (pullRequestsCreated repo (fst (script cs m)))"
proof (induction cs arbitrary: m)
  case Nil
  show ?case by simp
next
  case (Cons c cs)
  show ?case
    unfolding script_Cons_fst script_Cons_snd Cons.IH pullRequestsOf_perform
    by (subst (2) pullRequestsCreated_Cons) simp
qed

lemma upt_split:
  "[Suc a ..< Suc (a + (k + l))] = [Suc a ..< Suc (a + k)] @ [Suc (a + k) ..< Suc (a + k + l)]"
proof -
  have "[Suc a ..< Suc (a + k) + l] = [Suc a ..< Suc (a + k)] @ [Suc (a + k) ..< Suc (a + k) + l]"
    by (rule upt_add_eq_append) simp
  then show ?thesis by (simp only: add_Suc add.assoc)
qed

lemma pullRequestsCreated_script:
  "map snd (pullRequestsCreated repo (fst (script cs m))) =
     map pullRequestAt
       [Suc (length (pullRequestsOf m repo)) ..<
          Suc (length (pullRequestsOf m repo) + length (pullRequestsCreated repo (fst (script cs m))))]"
proof (induction cs arbitrary: m)
  case Nil
  show ?case by simp
next
  case (Cons c cs)
  let ?x = "(c, fst (perform c m))"
  let ?m = "snd (perform c m)"
  let ?n = "length (pullRequestsOf m repo)"
  let ?k = "length (pullRequestsCreated repo [?x])"
  let ?l = "length (pullRequestsCreated repo (fst (script cs ?m)))"
  have k: "?k \<le> 1"
    by (simp add: pullRequestsCreated_def split: option.splits)
  have one: "map snd (pullRequestsCreated repo [?x]) = map pullRequestAt [Suc ?n ..< Suc (?n + ?k)]"
  proof (cases "pullRequestsCreated repo [?x]")
    case Nil
    then show ?thesis by simp
  next
    case (Cons p ps)
    with k have "?k = 1" by simp
    with pullRequestsCreated_perform [of repo c m] Cons show ?thesis
      by simp
  qed
  have len: "length (pullRequestsOf ?m repo) = ?n + ?k"
    by (simp add: pullRequestsOf_perform)
  have rest: "map snd (pullRequestsCreated repo (fst (script cs ?m))) =
      map pullRequestAt [Suc (?n + ?k) ..< Suc (?n + ?k + ?l)]"
    using Cons.IH [of ?m] by (simp only: len)
  have split: "[Suc ?n ..< Suc (?n + (?k + ?l))] = [Suc ?n ..< Suc (?n + ?k)] @ [Suc (?n + ?k) ..< Suc (?n + ?k + ?l)]"
    by (rule upt_split)
  have eq: "pullRequestsCreated repo (?x # fst (script cs ?m)) =
      pullRequestsCreated repo [?x] @ pullRequestsCreated repo (fst (script cs ?m))"
    by (rule pullRequestsCreated_Cons)
  show ?case
    unfolding script_Cons_fst eq
    by (simp only: map_append length_append one rest split)
qed

lemma AssertPullRequestCreated_range_iff:
  "AssertPullRequestCreated_range repo inp prs = None \<longleftrightarrow> inp \<in> set prs"
  by (induction prs) auto

lemma RefutePullRequestCreated_range_iff:
  "RefutePullRequestCreated_range repo inp prs = None \<longleftrightarrow> inp \<notin> set prs"
  by (induction prs) auto

lemma pullRequestsOf_New [simp]: "pullRequestsOf New repo = []"
  by (simp add: pullRequestsOf_def New_def)

subsection \<open>Fixture tables after a script\<close>

lemma files_perform:
  "fmdom (files (snd (perform c m))) =
     fmdom (files m) |\<union>| fset_of_list (List.map_filter seededKey [c])"
  by (cases c) (auto simp: method_defs Let_def split: option.splits)

lemma files_script:
  "fmdom (files (snd (script cs m))) =
     fmdom (files m) |\<union>| fset_of_list (List.map_filter seededKey cs)"
proof (induction cs arbitrary: m)
  case Nil
  show ?case by simp
next
  case (Cons c cs)
  show ?case
    unfolding script_Cons_snd Cons.IH files_perform
    by (subst (2) map_filter_Cons) auto
qed

lemma write_frame:
  "is_write c \<Longrightarrow>
     files (snd (perform c m)) = files m \<and> GetFileErr (snd (perform c m)) = GetFileErr m
       \<and> branchHeads (snd (perform c m)) = branchHeads m"
  by (cases c) (auto simp: method_defs Let_def split: option.splits)

lemma writes_frame:
  "list_all is_write ws \<Longrightarrow>
     files (snd (script ws m)) = files m \<and> GetFileErr (snd (script ws m)) = GetFileErr m
       \<and> branchHeads (snd (script ws m)) = branchHeads m"
proof (induction ws arbitrary: m)
  case Nil
  show ?case by simp
next
  case (Cons c ws)
  then have c: "is_write c" and ws: "list_all is_write ws" by simp_all
  show ?case
    unfolding script_Cons_snd using Cons.IH [OF ws, of "snd (perform c m)"] write_frame [OF c, of m]
    by simp
qed

lemma seed_frame:
  "is_seed c \<Longrightarrow>
     updatedFiles (snd (perform c m)) = updatedFiles m
       \<and> createdBranches (snd (perform c m)) = createdBranches m
       \<and> createdPullRequests (snd (perform c m)) = createdPullRequests m"
  by (cases c) (auto simp: method_defs Let_def split: option.splits)

lemma seeds_frame:
  "list_all is_seed ss \<Longrightarrow>
     updatedFiles (snd (script ss m)) = updatedFiles m
       \<and> createdBranches (snd (script ss m)) = createdBranches m
       \<and> createdPullRequests (snd (script ss m)) = createdPullRequests m"
proof (induction ss arbitrary: m)
  case Nil
  show ?case by simp
next
  case (Cons c ss)
  then have c: "is_seed c" and ss: "list_all is_seed ss" by simp_all
  show ?case
    unfolding script_Cons_snd using Cons.IH [OF ss, of "snd (perform c m)"] seed_frame [OF c, of m]
    by simp
qed

lemma GetFile_cong:
  "files m = files m' \<Longrightarrow> GetFileErr m = GetFileErr m' \<Longrightarrow>
     fst (GetFile m repo ref path) = fst (GetFile m' repo ref path)"
  by (simp add: GetFile_def split: option.splits)

lemma GetBranchHead_cong:
  "branchHeads m = branchHeads m' \<Longrightarrow>
     fst (GetBranchHead m repo branch) = fst (GetBranchHead m' repo branch)"
  by (simp add: GetBranchHead_def split: option.splits)

section \<open>The claims\<close>

subsection \<open>Reading a seeded file\<close>

text \<open>
  Claim C1, as amended. With \<^verbatim>\<open>GetFileErr\<close> unset: right after \<^verbatim>\<open>AddFileContents\<close> seeds
  content \<open>c\<close> for \<open>(repo, path, ref)\<close>, and in any client whose \<^verbatim>\<open>files\<close> table holds
  \<open>c\<close> under \<^verbatim>\<open>key(repo, path, ref)\<close>, \<^verbatim>\<open>GetFile(repo, ref, path)\<close> returns exactly \<open>c\<close>
  and as \<^verbatim>\<open>Sha\<close> the lowercase hexadecimal rendering (40 characters) of the 20-byte
  SHA-1 digest of \<open>c\<close>, a function of the content alone. When the table has no entry
  under the joined key \<^verbatim>\<open>key(repo', path', ref')\<close>, in particular after a script on a new
  client in which no \<^verbatim>\<open>AddFileContents\<close> call seeded that joined key, \<^verbatim>\<open>GetFile\<close> fails
  with \<^verbatim>\<open>errors.New("not found")\<close>.
\<close>

theorem GetFile_seeded:
  fixes cs :: "('inp, 'sig) call list" and m :: "'inp MockClient"
  assumes "GetFileErr m = None"
  shows "fst (GetFile (AddFileContents m repo path ref c) repo ref path) =
           (Some \<lparr>Data = c, Sha = fmt_x (sha1_Sum (bytes_of c))\<rparr>, None)
       \<and> (fmlookup (files m) (key [repo, path, ref]) = Some c \<longrightarrow>
            GetFile m repo ref path =
              ((Some \<lparr>Data = c, Sha = fmt_x (sha1_Sum (bytes_of c))\<rparr>, None), m))
       \<and> length (sha1_Sum (bytes_of c)) = 20
       \<and> length (fmt_x (sha1_Sum (bytes_of c))) = 40
       \<and> set (fmt_x (sha1_Sum (bytes_of c))) \<subseteq> set ''0123456789abcdef''
       \<and> (fmlookup (files m) (key [repo', path', ref']) = None \<longrightarrow>
            GetFile m repo' ref' path' = ((None, Some (errors_New ''not found'')), m))
       \<and> (GetFileErr (snd (script cs (New :: 'inp MockClient))) = None
            \<and> key [repo', path', ref'] \<notin> set (List.map_filter seededKey cs) \<longrightarrow>
            fst (GetFile (snd (script cs (New :: 'inp MockClient))) repo' ref' path') =
              (None, Some (errors_New ''not found'')))"
proof -
  have 1: "fst (GetFile (AddFileContents m repo path ref c) repo ref path) =
      (Some \<lparr>Data = c, Sha = fmt_x (sha1_Sum (bytes_of c))\<rparr>, None)"
    using assms by (simp add: GetFile_def AddFileContents_def bytesSha1_def)
  have 2: "fmlookup (files m) (key [repo, path, ref]) = Some c \<longrightarrow>
      GetFile m repo ref path = ((Some \<lparr>Data = c, Sha = fmt_x (sha1_Sum (bytes_of c))\<rparr>, None), m)"
    using assms by (simp add: GetFile_def bytesSha1_def)
  have 3: "length (sha1_Sum (bytes_of c)) = 20"
    by (rule length_sha1_Sum)
  have 4: "length (fmt_x (sha1_Sum (bytes_of c))) = 40"
    by (simp add: length_fmt_x length_sha1_Sum)
  have 5: "set (fmt_x (sha1_Sum (bytes_of c))) \<subseteq> set ''0123456789abcdef''"
    by (rule fmt_x_hex)
  have 6: "fmlookup (files m) (key [repo', path', ref']) = None \<longrightarrow>
      GetFile m repo' ref' path' = ((None, Some (errors_New ''not found'')), m)"
    using assms by (simp add: GetFile_def)
  have 7: "fst (GetFile (snd (script cs (New :: 'inp MockClient))) repo' ref' path') =
      (None, Some (errors_New ''not found''))"
    if e: "GetFileErr (snd (script cs (New :: 'inp MockClient))) = None"
      and k: "key [repo', path', ref'] \<notin> set (List.map_filter seededKey cs)"
  proof -
    from k have "key [repo', path', ref'] |\<notin>| fmdom (files (snd (script cs (New :: 'inp MockClient))))"
      by (simp add: files_script New_def fset_of_list.rep_eq)
    then have "fmlookup (files (snd (script cs (New :: 'inp MockClient)))) (key [repo', path', ref']) = None"
      by (simp add: fmdom_notD)
    with e show ?thesis by (simp add: GetFile_def)
  qed
  from 1 2 3 4 5 6 7 show ?thesis by blast
qed

theorem GetFile_seeded_witness:
  "GetFileErr seeded = None
   \<and> fmlookup (files seeded) (key [''r'', ''a.txt'', ''main'']) = Some (Some [104, 101, 108, 108, 111])
   \<and> fmlookup (files seeded) (key [''r'', ''b.txt'', ''main'']) = None
   \<and> GetFileErr
       (snd (script [AddFileContentsCall ''r'' ''a.txt'' ''main'' (Some [104, 101, 108, 108, 111])
                      :: (string, unit) call] New)) = None
   \<and> key [''r'', ''b.txt'', ''main'']
       \<notin> set (List.map_filter seededKey
           [AddFileContentsCall ''r'' ''a.txt'' ''main'' (Some [104, 101, 108, 108, 111])
              :: (string, unit) call])
   \<and> GetFile seeded ''r'' ''main'' ''a.txt'' =
       ((Some \<lparr>Data = Some [104, 101, 108, 108, 111],
                Sha = fmt_x (sha1_Sum [104, 101, 108, 108, 111])\<rparr>, None), seeded)
   \<and> GetFile seeded ''r'' ''main'' ''b.txt'' = ((None, Some (errors_New ''not found'')), seeded)
   \<and> fst (GetFile
       (snd (script [AddFileContentsCall ''r'' ''a.txt'' ''main'' (Some [104, 101, 108, 108, 111])
                      :: (string, unit) call] New)) ''r'' ''main'' ''b.txt'') =
       (None, Some (errors_New ''not found''))"
proof -
  let ?cs = "[AddFileContentsCall ''r'' ''a.txt'' ''main'' (Some [104, 101, 108, 108, 111])
                :: (string, unit) call]"
  have h: "GetFileErr seeded = None"
    by (simp add: seeded_def AddFileContents_def New_def)
  have s: "fmlookup (files seeded) (key [''r'', ''a.txt'', ''main'']) = Some (Some [104, 101, 108, 108, 111])"
    "fmlookup (files seeded) (key [''r'', ''b.txt'', ''main'']) = None"
    by (simp_all add: seeded_def AddFileContents_def New_def key_def)
  have t: "GetFileErr (snd (script ?cs New)) = None"
    "key [''r'', ''b.txt'', ''main''] \<notin> set (List.map_filter seededKey ?cs)"
    by (simp_all add: AddFileContents_def New_def key_def)
  note GetFile_seeded
    [OF h, where cs = ?cs and repo = "''r''" and path = "''a.txt''" and ref = "''main''"
       and c = "Some [104, 101, 108, 108, 111]" and repo' = "''r''" and path' = "''b.txt''"
       and ref' = "''main''"]
  with h s t show ?thesis by (simp only: bytes_of.simps) blast
qed

text \<open>
  Claim C1 as it is written fails in two ways. A seeded file is not returned while
  \<^verbatim>\<open>GetFileErr\<close> is set; and a tuple that was never seeded is found when its joined key
  equals the joined key of a seeded tuple.
\<close>

theorem GetFile_override_and_collision:
  "fst (GetFile (seeded\<lparr>GetFileErr := Some (errors_New ''down'')\<rparr>) ''r'' ''main'' ''a.txt'') =
     (Some \<lparr>Data = None, Sha = []\<rparr>, Some (errors_New ''down''))
   \<and> (''org'', ''team:a.txt'', ''main'') \<noteq> (''org:team'', ''a.txt'', ''main'')
   \<and> fst (GetFile (AddFileContents (New :: string MockClient) ''org:team'' ''a.txt'' ''main'' (Some [1]))
          ''org'' ''main'' ''team:a.txt'') =
       (Some \<lparr>Data = Some [1], Sha = bytesSha1 (Some [1])\<rparr>, None)"
  by (simp add: seeded_def GetFile_def AddFileContents_def New_def key_def)

subsection \<open>Keys\<close>

text \<open>
  Claim C2, as amended. A lookup matches the joined string \<^verbatim>\<open>strings.Join(s, ":")\<close>
  exactly. For two distinct key tuples whose first two components contain no \<^verbatim>\<open>:\<close>
  the joined keys differ, so seeding, updating or creating under the first tuple leaves
  every lookup for the second tuple as it was: \<^verbatim>\<open>GetFile\<close>, \<^verbatim>\<open>GetUpdatedContents\<close>,
  \<^verbatim>\<open>AssertBranchCreated\<close>, \<^verbatim>\<open>RefuteBranchCreated\<close>, and likewise \<^verbatim>\<open>GetBranchHead\<close> for two
  distinct pairs and \<^verbatim>\<open>AssertPullRequestCreated\<close> for two distinct repositories.
\<close>

theorem key_match_without_separator:
  fixes m :: "'inp MockClient"
  assumes "colon_free a1" and "colon_free b1" and "colon_free a2" and "colon_free b2"
    and "(a1, b1, c1) \<noteq> (a2, b2, c2)"
  shows "key [a1, b1, c1] \<noteq> key [a2, b2, c2]
       \<and> fst (GetFile (AddFileContents m a1 b1 c1 body) a2 c2 b2) = fst (GetFile m a2 c2 b2)
       \<and> GetUpdatedContents
           (snd (UpdateFile m a1 c1 b1 message previousSHA signature content)) a2 b2 c2 =
           GetUpdatedContents m a2 b2 c2
       \<and> AssertBranchCreated (snd (CreateBranch m a1 b1 c1)) a2 b2 c2 =
           AssertBranchCreated m a2 b2 c2
       \<and> RefuteBranchCreated (snd (CreateBranch m a1 b1 c1)) a2 b2 c2 =
           RefuteBranchCreated m a2 b2 c2
       \<and> ((a1, b1) \<noteq> (a2, b2) \<longrightarrow>
            fst (GetBranchHead (AddBranchHead m a1 b1 sha) a2 b2) = fst (GetBranchHead m a2 b2))
       \<and> (a1 \<noteq> a2 \<longrightarrow>
            AssertPullRequestCreated (snd (CreatePullRequest m a1 inp)) a2 inp' =
              AssertPullRequestCreated m a2 inp')"
proof -
  from assms have k: "key [a1, b1, c1] \<noteq> key [a2, b2, c2]"
    using key3_inject [of a1 b1 a2 b2 c1 c2] by auto
  from k have 1: "fst (GetFile (AddFileContents m a1 b1 c1 body) a2 c2 b2) = fst (GetFile m a2 c2 b2)"
    by (simp add: GetFile_def AddFileContents_def split: option.splits)
  from k have 2: "GetUpdatedContents
      (snd (UpdateFile m a1 c1 b1 message previousSHA signature content)) a2 b2 c2 =
      GetUpdatedContents m a2 b2 c2"
    by (simp add: GetUpdatedContents_def UpdateFile_def split: option.splits)
  from k have 3: "AssertBranchCreated (snd (CreateBranch m a1 b1 c1)) a2 b2 c2 =
      AssertBranchCreated m a2 b2 c2"
    by (simp add: AssertBranchCreated_def CreateBranch_def split: option.splits)
  from k have 4: "RefuteBranchCreated (snd (CreateBranch m a1 b1 c1)) a2 b2 c2 =
      RefuteBranchCreated m a2 b2 c2"
    by (simp add: RefuteBranchCreated_def CreateBranch_def split: option.splits)
  have 5: "fst (GetBranchHead (AddBranchHead m a1 b1 sha) a2 b2) = fst (GetBranchHead m a2 b2)"
    if "(a1, b1) \<noteq> (a2, b2)"
  proof -
    from that assms(1,3) have "key [a1, b1] \<noteq> key [a2, b2]"
      using key2_inject [of a1 a2 b1 b2] by auto
    then show ?thesis
      by (simp add: GetBranchHead_def AddBranchHead_def split: option.splits)
  qed
  have 6: "AssertPullRequestCreated (snd (CreatePullRequest m a1 inp)) a2 inp' =
      AssertPullRequestCreated m a2 inp'" if "a1 \<noteq> a2"
    using that
    by (simp add: AssertPullRequestCreated_def pullRequestsOf_def CreatePullRequest_def Let_def
        split: option.splits)
  from k 1 2 3 4 5 6 show ?thesis by blast
qed

theorem key_match_without_separator_witness:
  "colon_free ''r'' \<and> colon_free ''a.txt'' \<and> colon_free ''q'' \<and> colon_free ''b.txt''
   \<and> (''r'', ''a.txt'', ''main'') \<noteq> (''q'', ''b.txt'', ''main'')
   \<and> (''r'', ''a.txt'') \<noteq> (''q'', ''b.txt'') \<and> ''r'' \<noteq> ''q''
   \<and> key [''r'', ''a.txt'', ''main''] \<noteq> key [''q'', ''b.txt'', ''main'']
   \<and> fst (GetFile (AddFileContents (New :: string MockClient) ''r'' ''a.txt'' ''main'' (Some [1]))
          ''q'' ''main'' ''b.txt'') = fst (GetFile (New :: string MockClient) ''q'' ''main'' ''b.txt'')
   \<and> fst (GetBranchHead (AddBranchHead (New :: string MockClient) ''r'' ''a.txt'' ''abc'')
          ''q'' ''b.txt'') = fst (GetBranchHead (New :: string MockClient) ''q'' ''b.txt'')"
proof -
  have h: "colon_free ''r''" "colon_free ''a.txt''" "colon_free ''q''" "colon_free ''b.txt''"
    by (simp_all add: colon_free_def)
  have d: "(''r'', ''a.txt'', ''main'') \<noteq> (''q'', ''b.txt'', ''main'')"
    "(''r'', ''a.txt'') \<noteq> (''q'', ''b.txt'')" "''r'' \<noteq> ''q''"
    by simp_all
  note key_match_without_separator
    [OF h d(1), where m = "New :: string MockClient" and body = "Some [1]" and message = "''msg''"
       and previousSHA = "''sha''" and signature = "()" and content = "Some [2]"
       and sha = "''abc''" and inp = "''input''" and inp' = "''input''"]
  with h d show ?thesis by blast
qed

text \<open>
  Claim C2 as it is written fails: the distinct tuples \<open>(a:b, c, d)\<close> and \<open>(a, b:c, d)\<close>
  join to the same key \<^verbatim>\<open>a:b:c:d\<close>, so seeding the first makes \<^verbatim>\<open>GetFile\<close> succeed for
  the second, which is not found on a new client.
\<close>

theorem key_collision:
  "(''a:b'', ''c'', ''d'') \<noteq> (''a'', ''b:c'', ''d'')
   \<and> fst (GetFile (New :: string MockClient) ''a'' ''d'' ''b:c'') =
       (None, Some (errors_New ''not found''))
   \<and> fst (GetFile (AddFileContents (New :: string MockClient) ''a:b'' ''c'' ''d'' (Some [1]))
          ''a'' ''d'' ''b:c'') =
       (Some \<lparr>Data = Some [1], Sha = bytesSha1 (Some [1])\<rparr>, None)"
  by (simp add: GetFile_def AddFileContents_def New_def key_def)

subsection \<open>Error fields\<close>

text \<open>
  Claim C3, as amended. \<^verbatim>\<open>GetFile\<close>, \<^verbatim>\<open>UpdateFile\<close>, \<^verbatim>\<open>CreateBranch\<close> and
  \<^verbatim>\<open>CreatePullRequest\<close> each have an error field of their own. When it is set the method
  returns that error as it is and the client unchanged (\<^verbatim>\<open>GetFile\<close> next to an empty
  \<^verbatim>\<open>scm.Content\<close>), and what a method returns does not depend on the error fields of the
  other methods. \<^verbatim>\<open>GetBranchHead\<close> and \<^verbatim>\<open>DeleteFile\<close> have no error field: what they return
  is the same whatever the four fields hold.
\<close>

theorem error_overrides:
  fixes m :: "'inp MockClient"
  shows "(GetFileErr m = Some e \<longrightarrow>
            GetFile m repo ref path = ((Some \<lparr>Data = None, Sha = []\<rparr>, Some e), m))
       \<and> (UpdateFileErr m = Some e \<longrightarrow>
            UpdateFile m repo branch path message previousSHA signature content = (Some e, m))
       \<and> (CreateBranchErr m = Some e \<longrightarrow> CreateBranch m repo branch sha = (Some e, m))
       \<and> (CreatePullRequestErr m = Some e \<longrightarrow> CreatePullRequest m repo inp = ((None, Some e), m))
       \<and> fst (GetFile (m\<lparr>UpdateFileErr := x, CreateBranchErr := y, CreatePullRequestErr := z\<rparr>)
              repo ref path) = fst (GetFile m repo ref path)
       \<and> fst (UpdateFile (m\<lparr>GetFileErr := w, CreateBranchErr := y, CreatePullRequestErr := z\<rparr>)
              repo branch path message previousSHA signature content) =
           fst (UpdateFile m repo branch path message previousSHA signature content)
       \<and> fst (CreateBranch (m\<lparr>GetFileErr := w, UpdateFileErr := x, CreatePullRequestErr := z\<rparr>)
              repo branch sha) = fst (CreateBranch m repo branch sha)
       \<and> fst (CreatePullRequest (m\<lparr>GetFileErr := w, UpdateFileErr := x, CreateBranchErr := y\<rparr>)
              repo inp) = fst (CreatePullRequest m repo inp)
       \<and> fst (GetBranchHead
              (m\<lparr>GetFileErr := w, UpdateFileErr := x, CreateBranchErr := y,
                 CreatePullRequestErr := z\<rparr>) repo branch) = fst (GetBranchHead m repo branch)
       \<and> fst (DeleteFile
              (m\<lparr>GetFileErr := w, UpdateFileErr := x, CreateBranchErr := y,
                 CreatePullRequestErr := z\<rparr>) repo branch path message previousSHA signature content) =
           Some ErrNotSupported"
proof -
  have 1: "GetFileErr m = Some e \<longrightarrow>
      GetFile m repo ref path = ((Some \<lparr>Data = None, Sha = []\<rparr>, Some e), m)"
    by (simp add: GetFile_def)
  have 2: "UpdateFileErr m = Some e \<longrightarrow>
      UpdateFile m repo branch path message previousSHA signature content = (Some e, m)"
    by (simp add: UpdateFile_def)
  have 3: "CreateBranchErr m = Some e \<longrightarrow> CreateBranch m repo branch sha = (Some e, m)"
    by (simp add: CreateBranch_def)
  have 4: "CreatePullRequestErr m = Some e \<longrightarrow> CreatePullRequest m repo inp = ((None, Some e), m)"
    by (simp add: CreatePullRequest_def)
  have 5: "fst (GetFile (m\<lparr>UpdateFileErr := x, CreateBranchErr := y, CreatePullRequestErr := z\<rparr>)
      repo ref path) = fst (GetFile m repo ref path)"
    by (simp add: GetFile_def split: option.splits)
  have 6: "fst (UpdateFile (m\<lparr>GetFileErr := w, CreateBranchErr := y, CreatePullRequestErr := z\<rparr>)
      repo branch path message previousSHA signature content) =
      fst (UpdateFile m repo branch path message previousSHA signature content)"
    by (simp add: UpdateFile_def split: option.splits)
  have 7: "fst (CreateBranch (m\<lparr>GetFileErr := w, UpdateFileErr := x, CreatePullRequestErr := z\<rparr>)
      repo branch sha) = fst (CreateBranch m repo branch sha)"
    by (simp add: CreateBranch_def split: option.splits)
  have 8: "fst (CreatePullRequest (m\<lparr>GetFileErr := w, UpdateFileErr := x, CreateBranchErr := y\<rparr>)
      repo inp) = fst (CreatePullRequest m repo inp)"
    by (simp add: CreatePullRequest_def Let_def split: option.splits)
  have 9: "fst (GetBranchHead
      (m\<lparr>GetFileErr := w, UpdateFileErr := x, CreateBranchErr := y,
         CreatePullRequestErr := z\<rparr>) repo branch) = fst (GetBranchHead m repo branch)"
    by (simp add: GetBranchHead_def split: option.splits)
  have 10: "fst (DeleteFile
      (m\<lparr>GetFileErr := w, UpdateFileErr := x, CreateBranchErr := y,
         CreatePullRequestErr := z\<rparr>) repo branch path message previousSHA signature content) =
      Some ErrNotSupported"
    by (simp add: DeleteFile_def)
  from 1 2 3 4 5 6 7 8 9 10 show ?thesis by blast
qed

theorem error_overrides_witness:
  "GetFileErr outage = Some (errors_New ''down'')
   \<and> UpdateFileErr outage = Some (errors_New ''down'')
   \<and> CreateBranchErr outage = Some (errors_New ''down'')
   \<and> CreatePullRequestErr outage = Some (errors_New ''down'')
   \<and> GetFile outage ''r'' ''main'' ''a.txt'' =
       ((Some \<lparr>Data = None, Sha = []\<rparr>, Some (errors_New ''down'')), outage)
   \<and> UpdateFile outage ''r'' ''main'' ''a.txt'' ''msg'' ''sha'' () (Some [2]) =
       (Some (errors_New ''down''), outage)
   \<and> CreateBranch outage ''r'' ''main'' ''abc'' = (Some (errors_New ''down''), outage)
   \<and> CreatePullRequest outage ''r'' ''input'' = ((None, Some (errors_New ''down'')), outage)"
proof -
  have h: "GetFileErr outage = Some (errors_New ''down'')"
    "UpdateFileErr outage = Some (errors_New ''down'')"
    "CreateBranchErr outage = Some (errors_New ''down'')"
    "CreatePullRequestErr outage = Some (errors_New ''down'')"
    by (simp_all add: outage_def AddBranchHead_def AddFileContents_def)
  note error_overrides
    [where m = outage and e = "errors_New ''down''" and repo = "''r''" and ref = "''main''"
       and path = "''a.txt''" and branch = "''main''" and message = "''msg''"
       and previousSHA = "''sha''" and signature = "()" and content = "Some [2]"
       and sha = "''abc''" and inp = "''input''"]
  with h show ?thesis by blast
qed

text \<open>
  Claim C3 as it is written fails for \<^verbatim>\<open>GetBranchHead\<close> and \<^verbatim>\<open>DeleteFile\<close>: with all four
  error fields of the client set, \<^verbatim>\<open>GetBranchHead\<close> still returns the seeded head and no
  error, and \<^verbatim>\<open>DeleteFile\<close> returns \<^verbatim>\<open>scm.ErrNotSupported\<close>, not the error that was set.
\<close>

theorem GetBranchHead_and_DeleteFile_have_no_override:
  "fst (GetBranchHead outage ''r'' ''main'') = (''abc'', None)
   \<and> fst (DeleteFile outage ''r'' ''main'' ''a.txt'' ''msg'' ''sha'' () (Some [2])) =
       Some ErrNotSupported
   \<and> Some ErrNotSupported \<noteq> Some (errors_New ''down'')"
  by (simp add: outage_def GetBranchHead_def DeleteFile_def AddBranchHead_def AddFileContents_def
      New_def key_def)

subsection \<open>Updating a file\<close>

text \<open>
  Claim C4. With \<^verbatim>\<open>UpdateFileErr\<close> unset, \<^verbatim>\<open>UpdateFile\<close> returns no error and stores
  the content under \<^verbatim>\<open>key(repo, path, branch)\<close>, replacing what was there; the message,
  the previous SHA and the signature do not enter the result; \<^verbatim>\<open>GetUpdatedContents\<close>
  on the same key then returns the content written last.
\<close>

theorem UpdateFile_records_content:
  assumes "UpdateFileErr m = None"
  shows "fst (UpdateFile m repo branch path message previousSHA signature content) = None
       \<and> updatedFiles (snd (UpdateFile m repo branch path message previousSHA signature content)) =
           fmupd (key [repo, path, branch]) content (updatedFiles m)
       \<and> UpdateFile m repo branch path message previousSHA signature content =
           UpdateFile m repo branch path message' previousSHA' signature' content
       \<and> GetUpdatedContents
           (snd (UpdateFile m repo branch path message previousSHA signature content))
           repo path branch = content
       \<and> GetUpdatedContents
           (snd (UpdateFile
                  (snd (UpdateFile m repo branch path message previousSHA signature content))
                  repo branch path message' previousSHA' signature' content'))
           repo path branch = content'"
  using assms by (simp add: UpdateFile_def GetUpdatedContents_def)

theorem UpdateFile_records_content_witness:
  "UpdateFileErr (New :: string MockClient) = None
   \<and> fst (UpdateFile (New :: string MockClient) ''r'' ''feature'' ''a.txt'' ''msg'' ''wrongsha'' ()
          (Some [119, 111, 114, 108, 100])) = None
   \<and> GetUpdatedContents
        (snd (UpdateFile (New :: string MockClient) ''r'' ''feature'' ''a.txt'' ''msg'' ''wrongsha'' ()
               (Some [119, 111, 114, 108, 100])))
        ''r'' ''a.txt'' ''feature'' = Some [119, 111, 114, 108, 100]"
proof -
  have h: "UpdateFileErr (New :: string MockClient) = None"
    by (simp add: New_def)
  note UpdateFile_records_content
    [OF h, of "''r''" "''feature''" "''a.txt''" "''msg''" "''wrongsha''" "()"
        "Some [119, 111, 114, 108, 100]" "''msg''" "''sha''" "()" None]
  with h show ?thesis by blast
qed

subsection \<open>Pull-request numbers\<close>

text \<open>
  Claim C5. In any script run on a new client, the \<^verbatim>\<open>CreatePullRequest\<close> calls on one
  repository that return no error return the numbers 1, 2, 3, ... in call order, each
  with the link \<^verbatim>\<open>https://example.com/pull-request/\<close> followed by the number in decimal;
  the sequence recorded for the repository is the sequence of their inputs, and
  \<^verbatim>\<open>AssertPullRequestCreated\<close> returns normally exactly for an input equal to one of
  them. For one call on any client with \<^verbatim>\<open>CreatePullRequestErr\<close> unset, the input is
  appended and the number is the length of the sequence after the append.
\<close>

theorem CreatePullRequest_numbers:
  fixes cs :: "('inp, 'sig) call list" and m :: "'inp MockClient"
  shows "map (Number \<circ> snd) (pullRequestsCreated repo (fst (script cs New))) =
           map int [1 ..< Suc (length (pullRequestsCreated repo (fst (script cs New))))]
       \<and> list_all (\<lambda>x. Link (snd x) = ''https://example.com/pull-request/'' @ fmt_d (Number (snd x)))
           (pullRequestsCreated repo (fst (script cs New)))
       \<and> pullRequestsOf (snd (script cs New)) repo =
           map fst (pullRequestsCreated repo (fst (script cs New)))
       \<and> (AssertPullRequestCreated (snd (script cs New)) repo inp = None) =
           (inp \<in> fst ` set (pullRequestsCreated repo (fst (script cs New))))
       \<and> (CreatePullRequestErr m = None \<longrightarrow>
            pullRequestsOf (snd (CreatePullRequest m repo inp)) repo = pullRequestsOf m repo @ [inp]
            \<and> fst (CreatePullRequest m repo inp) =
                (Some (pullRequestAt
                   (length (pullRequestsOf (snd (CreatePullRequest m repo inp)) repo))), None))"
proof -
  let ?log = "fst (script cs (New :: 'inp MockClient))"
  have prs: "map snd (pullRequestsCreated repo ?log) =
      map pullRequestAt [1 ..< Suc (length (pullRequestsCreated repo ?log))]"
    using pullRequestsCreated_script [of repo cs New] by simp
  have "map Number (map snd (pullRequestsCreated repo ?log)) =
      map int [1 ..< Suc (length (pullRequestsCreated repo ?log))]"
    unfolding prs by (simp add: pullRequestAt_def comp_def del: upt_Suc)
  then have numbers: "map (Number \<circ> snd) (pullRequestsCreated repo ?log) =
      map int [1 ..< Suc (length (pullRequestsCreated repo ?log))]"
    by simp
  have "\<forall>pr \<in> set (map snd (pullRequestsCreated repo ?log)).
      Link pr = ''https://example.com/pull-request/'' @ fmt_d (Number pr)"
    unfolding prs by (auto simp: pullRequestAt_def)
  then have links: "list_all (\<lambda>x. Link (snd x) = ''https://example.com/pull-request/'' @ fmt_d (Number (snd x)))
      (pullRequestsCreated repo ?log)"
    by (auto simp: list_all_iff)
  have recorded: "pullRequestsOf (snd (script cs New)) repo = map fst (pullRequestsCreated repo ?log)"
    by (simp add: pullRequestsOf_script)
  have "(AssertPullRequestCreated (snd (script cs New)) repo inp = None) =
      (inp \<in> fst ` set (pullRequestsCreated repo ?log))"
    by (simp add: AssertPullRequestCreated_def AssertPullRequestCreated_range_iff recorded)
  moreover have "CreatePullRequestErr m = None \<longrightarrow>
      pullRequestsOf (snd (CreatePullRequest m repo inp)) repo = pullRequestsOf m repo @ [inp]
      \<and> fst (CreatePullRequest m repo inp) =
          (Some (pullRequestAt
             (length (pullRequestsOf (snd (CreatePullRequest m repo inp)) repo))), None)"
    by (simp add: CreatePullRequest_def pullRequestsOf_def pullRequestAt_def Let_def
        split: option.splits)
  ultimately show ?thesis using numbers links recorded by blast
qed

lemma three_pull_requests:
  "fst (script
     [CreatePullRequestCall ''r'' ''first'',
      SetCreatePullRequestErr (Some (errors_New ''down'')),
      CreatePullRequestCall ''r'' ''lost'',
      SetCreatePullRequestErr None,
      CreatePullRequestCall ''q'' ''other'',
      CreatePullRequestCall ''r'' ''second'' :: (string, unit) call] New) =
   [(CreatePullRequestCall ''r'' ''first'',
       PullRequestReply (Some \<lparr>Number = 1, Link = ''https://example.com/pull-request/1''\<rparr>) None),
    (SetCreatePullRequestErr (Some (errors_New ''down'')), NoReply),
    (CreatePullRequestCall ''r'' ''lost'', PullRequestReply None (Some (errors_New ''down''))),
    (SetCreatePullRequestErr None, NoReply),
    (CreatePullRequestCall ''q'' ''other'',
       PullRequestReply (Some \<lparr>Number = 1, Link = ''https://example.com/pull-request/1''\<rparr>) None),
    (CreatePullRequestCall ''r'' ''second'',
       PullRequestReply (Some \<lparr>Number = 2, Link = ''https://example.com/pull-request/2''\<rparr>) None)]"
  by (simp add: CreatePullRequest_def New_def fmt_d_def digit_def)

theorem CreatePullRequest_numbers_witness:
  "CreatePullRequestErr (New :: string MockClient) = None
   \<and> fst (CreatePullRequest (New :: string MockClient) ''r'' ''second'') =
       (Some \<lparr>Number = 1, Link = ''https://example.com/pull-request/1''\<rparr>, None)
   \<and> map (Number \<circ> snd)
     (pullRequestsCreated ''r''
        (fst (script
           [CreatePullRequestCall ''r'' ''first'',
            SetCreatePullRequestErr (Some (errors_New ''down'')),
            CreatePullRequestCall ''r'' ''lost'',
            SetCreatePullRequestErr None,
            CreatePullRequestCall ''q'' ''other'',
            CreatePullRequestCall ''r'' ''second'' :: (string, unit) call] New))) = [1, 2]
   \<and> map (Link \<circ> snd)
     (pullRequestsCreated ''r''
        (fst (script
           [CreatePullRequestCall ''r'' ''first'',
            SetCreatePullRequestErr (Some (errors_New ''down'')),
            CreatePullRequestCall ''r'' ''lost'',
            SetCreatePullRequestErr None,
            CreatePullRequestCall ''q'' ''other'',
            CreatePullRequestCall ''r'' ''second'' :: (string, unit) call] New))) =
       [''https://example.com/pull-request/1'', ''https://example.com/pull-request/2'']
   \<and> AssertPullRequestCreated
       (snd (script
           [CreatePullRequestCall ''r'' ''first'',
            SetCreatePullRequestErr (Some (errors_New ''down'')),
            CreatePullRequestCall ''r'' ''lost'',
            SetCreatePullRequestErr None,
            CreatePullRequestCall ''q'' ''other'',
            CreatePullRequestCall ''r'' ''second'' :: (string, unit) call] New)) ''r'' ''second'' = None
   \<and> AssertPullRequestCreated
       (snd (script
           [CreatePullRequestCall ''r'' ''first'',
            SetCreatePullRequestErr (Some (errors_New ''down'')),
            CreatePullRequestCall ''r'' ''lost'',
            SetCreatePullRequestErr None,
            CreatePullRequestCall ''q'' ''other'',
            CreatePullRequestCall ''r'' ''second'' :: (string, unit) call] New)) ''r'' ''other'' \<noteq> None"
proof -
  let ?cs = "[CreatePullRequestCall ''r'' ''first'',
            SetCreatePullRequestErr (Some (errors_New ''down'')),
            CreatePullRequestCall ''r'' ''lost'',
            SetCreatePullRequestErr None,
            CreatePullRequestCall ''q'' ''other'',
            CreatePullRequestCall ''r'' ''second'' :: (string, unit) call]"
  have created: "pullRequestsCreated ''r'' (fst (script ?cs New)) =
      [(''first'', \<lparr>Number = 1, Link = ''https://example.com/pull-request/1''\<rparr>),
       (''second'', \<lparr>Number = 2, Link = ''https://example.com/pull-request/2''\<rparr>)]"
    unfolding three_pull_requests by (simp add: pullRequestsCreated_def)
  have h: "CreatePullRequestErr (New :: string MockClient) = None"
    by (simp add: New_def)
  have one: "pullRequestAt 1 = \<lparr>Number = 1, Link = ''https://example.com/pull-request/1''\<rparr>"
    by (simp add: pullRequestAt_def fmt_d_def digit_def)
  note CreatePullRequest_numbers
      [where repo = "''r''" and cs = ?cs and inp = "''second''" and m = "New :: string MockClient"]
    CreatePullRequest_numbers
      [where repo = "''r''" and cs = ?cs and inp = "''other''" and m = "New :: string MockClient"]
  then show ?thesis unfolding created using h one by simp
qed

subsection \<open>Creating a branch twice\<close>

text \<open>
  Claim C6, as amended. With \<^verbatim>\<open>CreateBranchErr\<close> unset, \<^verbatim>\<open>CreateBranch\<close> called twice
  with the same \<open>(repo, branch, sha)\<close> returns no error both times, the client after the
  second call is the client after the first (on a new client: exactly one entry in
  \<^verbatim>\<open>createdBranches\<close>), and after either call \<^verbatim>\<open>AssertBranchCreated\<close> for that key returns
  normally and \<^verbatim>\<open>RefuteBranchCreated\<close> for that key calls \<^verbatim>\<open>Fatalf\<close>.
\<close>

theorem CreateBranch_idempotent:
  assumes "CreateBranchErr m = None"
  shows "fst (CreateBranch m repo branch sha) = None
       \<and> fst (CreateBranch (snd (CreateBranch m repo branch sha)) repo branch sha) = None
       \<and> snd (CreateBranch (snd (CreateBranch m repo branch sha)) repo branch sha) =
           snd (CreateBranch m repo branch sha)
       \<and> len (createdBranches (snd (CreateBranch (snd (CreateBranch New repo branch sha))
                                     repo branch sha))) = 1
       \<and> AssertBranchCreated (snd (CreateBranch m repo branch sha)) repo branch sha = None
       \<and> AssertBranchCreated
           (snd (CreateBranch (snd (CreateBranch m repo branch sha)) repo branch sha))
           repo branch sha = None
       \<and> RefuteBranchCreated (snd (CreateBranch m repo branch sha)) repo branch sha =
           Some (Fatalf ''branch %s was created in repo %s from sha %s''
                   [ArgS branch, ArgS repo, ArgS sha])
       \<and> RefuteBranchCreated
           (snd (CreateBranch (snd (CreateBranch m repo branch sha)) repo branch sha))
           repo branch sha =
           Some (Fatalf ''branch %s was created in repo %s from sha %s''
                   [ArgS branch, ArgS repo, ArgS sha])"
proof -
  have twice: "snd (CreateBranch (snd (CreateBranch m repo branch sha)) repo branch sha) =
      snd (CreateBranch m repo branch sha)"
    using assms by (simp add: CreateBranch_def)
  have one: "len (createdBranches (snd (CreateBranch (snd (CreateBranch New repo branch sha))
      repo branch sha))) = 1"
    by (simp add: CreateBranch_def New_def len_def fcard_finsert_if)
  have first: "fst (CreateBranch m repo branch sha) = None"
    "fst (CreateBranch (snd (CreateBranch m repo branch sha)) repo branch sha) = None"
    using assms by (simp_all add: CreateBranch_def)
  have asserted: "AssertBranchCreated (snd (CreateBranch m repo branch sha)) repo branch sha = None"
    using assms by (simp add: CreateBranch_def AssertBranchCreated_def)
  have refuted: "RefuteBranchCreated (snd (CreateBranch m repo branch sha)) repo branch sha =
      Some (Fatalf ''branch %s was created in repo %s from sha %s'' [ArgS branch, ArgS repo, ArgS sha])"
    using assms by (simp add: CreateBranch_def RefuteBranchCreated_def)
  from first one asserted refuted show ?thesis
    unfolding twice by blast
qed

theorem CreateBranch_idempotent_witness:
  "CreateBranchErr (New :: string MockClient) = None
   \<and> fst (CreateBranch (snd (CreateBranch (New :: string MockClient) ''r'' ''feature'' ''abc''))
          ''r'' ''feature'' ''abc'') = None
   \<and> len (createdBranches
       (snd (CreateBranch (snd (CreateBranch (New :: string MockClient) ''r'' ''feature'' ''abc''))
          ''r'' ''feature'' ''abc''))) = 1
   \<and> AssertBranchCreated
       (snd (CreateBranch (snd (CreateBranch (New :: string MockClient) ''r'' ''feature'' ''abc''))
          ''r'' ''feature'' ''abc'')) ''r'' ''feature'' ''abc'' = None"
proof -
  have h: "CreateBranchErr (New :: string MockClient) = None"
    by (simp add: New_def)
  note CreateBranch_idempotent [OF h, of "''r''" "''feature''" "''abc''"]
  with h show ?thesis by blast
qed

text \<open>
  Claim C6 as it is written fails while \<^verbatim>\<open>CreateBranchErr\<close> is set: both calls return
  the error, no entry is recorded, \<^verbatim>\<open>AssertBranchCreated\<close> calls \<^verbatim>\<open>Fatalf\<close> and
  \<^verbatim>\<open>RefuteBranchCreated\<close> returns normally.
\<close>

theorem CreateBranch_with_override_records_nothing:
  "fst (CreateBranch ((New :: string MockClient)\<lparr>CreateBranchErr := Some (errors_New ''down'')\<rparr>)
          ''r'' ''feature'' ''abc'') = Some (errors_New ''down'')
   \<and> fst (CreateBranch
          (snd (CreateBranch ((New :: string MockClient)\<lparr>CreateBranchErr := Some (errors_New ''down'')\<rparr>)
             ''r'' ''feature'' ''abc'')) ''r'' ''feature'' ''abc'') = Some (errors_New ''down'')
   \<and> len (createdBranches
       (snd (CreateBranch
          (snd (CreateBranch ((New :: string MockClient)\<lparr>CreateBranchErr := Some (errors_New ''down'')\<rparr>)
             ''r'' ''feature'' ''abc'')) ''r'' ''feature'' ''abc''))) = 0
   \<and> AssertBranchCreated
       (snd (CreateBranch ((New :: string MockClient)\<lparr>CreateBranchErr := Some (errors_New ''down'')\<rparr>)
          ''r'' ''feature'' ''abc'')) ''r'' ''feature'' ''abc'' \<noteq> None
   \<and> RefuteBranchCreated
       (snd (CreateBranch ((New :: string MockClient)\<lparr>CreateBranchErr := Some (errors_New ''down'')\<rparr>)
          ''r'' ''feature'' ''abc'')) ''r'' ''feature'' ''abc'' = None"
  by (simp add: CreateBranch_def AssertBranchCreated_def RefuteBranchCreated_def New_def len_def)

subsection \<open>No interactions\<close>

text \<open>
  Claim C7, as amended. \<^verbatim>\<open>AssertNoInteractions\<close> returns normally on a new client.
  After any script run on a new client it returns normally exactly when no
  \<^verbatim>\<open>UpdateFile\<close>, \<^verbatim>\<open>CreateBranch\<close> or \<^verbatim>\<open>CreatePullRequest\<close> call of the script returned
  without error; one such call on any client with its error field unset makes it call
  \<^verbatim>\<open>Fatalf\<close>. \<^verbatim>\<open>AddFileContents\<close>, \<^verbatim>\<open>AddBranchHead\<close>, \<^verbatim>\<open>GetFile\<close> and \<^verbatim>\<open>GetBranchHead\<close>
  leave its outcome as it was.
\<close>

theorem AssertNoInteractions_after_script:
  fixes cs :: "('inp, 'sig) call list" and m :: "'inp MockClient"
  shows "AssertNoInteractions (New :: 'inp MockClient) = None
       \<and> (AssertNoInteractions (snd (script cs (New :: 'inp MockClient))) = None) =
           (\<not> list_ex interaction (fst (script cs (New :: 'inp MockClient))))
       \<and> (UpdateFileErr m = None \<longrightarrow>
            AssertNoInteractions
              (snd (UpdateFile m repo branch path message previousSHA signature content)) \<noteq> None)
       \<and> (CreateBranchErr m = None \<longrightarrow>
            AssertNoInteractions (snd (CreateBranch m repo branch sha)) \<noteq> None)
       \<and> (CreatePullRequestErr m = None \<longrightarrow>
            AssertNoInteractions (snd (CreatePullRequest m repo inp)) \<noteq> None)
       \<and> AssertNoInteractions (AddFileContents m repo path ref body) = AssertNoInteractions m
       \<and> AssertNoInteractions (AddBranchHead m repo branch sha) = AssertNoInteractions m
       \<and> AssertNoInteractions (snd (GetFile m repo ref path)) = AssertNoInteractions m
       \<and> AssertNoInteractions (snd (GetBranchHead m repo branch)) = AssertNoInteractions m"
proof -
  have 1: "AssertNoInteractions (New :: 'inp MockClient) = None"
    by (simp add: AssertNoInteractions_def New_def len_def)
  have 2: "(AssertNoInteractions (snd (script cs (New :: 'inp MockClient))) = None) =
           (\<not> list_ex interaction (fst (script cs (New :: 'inp MockClient))))"
    by (rule no_interactions_iff)
  have 3: "UpdateFileErr m = None \<longrightarrow>
            AssertNoInteractions
              (snd (UpdateFile m repo branch path message previousSHA signature content)) \<noteq> None"
    by (simp add: AssertNoInteractions_def UpdateFile_def len_eq_0)
  have 4: "CreateBranchErr m = None \<longrightarrow>
            AssertNoInteractions (snd (CreateBranch m repo branch sha)) \<noteq> None"
    by (simp add: AssertNoInteractions_def CreateBranch_def len_eq_0)
  have 5: "CreatePullRequestErr m = None \<longrightarrow>
            AssertNoInteractions (snd (CreatePullRequest m repo inp)) \<noteq> None"
    by (simp add: AssertNoInteractions_def CreatePullRequest_def len_eq_0 Let_def)
  have 6: "AssertNoInteractions (AddFileContents m repo path ref body) = AssertNoInteractions m"
    by (simp add: AssertNoInteractions_def AddFileContents_def)
  have 7: "AssertNoInteractions (AddBranchHead m repo branch sha) = AssertNoInteractions m"
    by (simp add: AssertNoInteractions_def AddBranchHead_def)
  have 8: "AssertNoInteractions (snd (GetFile m repo ref path)) = AssertNoInteractions m"
    by (simp add: GetFile_def split: option.splits)
  have 9: "AssertNoInteractions (snd (GetBranchHead m repo branch)) = AssertNoInteractions m"
    by (simp add: GetBranchHead_def split: option.splits)
  from 1 2 3 4 5 6 7 8 9 show ?thesis by blast
qed

theorem AssertNoInteractions_after_script_witness:
  "UpdateFileErr (New :: string MockClient) = None
   \<and> CreateBranchErr (New :: string MockClient) = None
   \<and> CreatePullRequestErr (New :: string MockClient) = None
   \<and> AssertNoInteractions (New :: string MockClient) = None
   \<and> AssertNoInteractions
       (snd (UpdateFile (New :: string MockClient) ''r'' ''main'' ''a.txt'' ''msg'' ''sha'' () (Some [1])))
       \<noteq> None
   \<and> AssertNoInteractions (snd (CreateBranch (New :: string MockClient) ''r'' ''main'' ''abc'')) \<noteq> None
   \<and> AssertNoInteractions (snd (CreatePullRequest (New :: string MockClient) ''r'' ''input'')) \<noteq> None
   \<and> AssertNoInteractions
       (snd (script
          [AddFileContentsCall ''r'' ''a.txt'' ''main'' (Some [1]),
           GetFileCall ''r'' ''main'' ''a.txt'',
           AddBranchHeadCall ''r'' ''main'' ''abc'',
           GetBranchHeadCall ''r'' ''main'' :: (string, unit) call] New)) = None"
proof -
  let ?cs = "[AddFileContentsCall ''r'' ''a.txt'' ''main'' (Some [1]),
           GetFileCall ''r'' ''main'' ''a.txt'',
           AddBranchHeadCall ''r'' ''main'' ''abc'',
           GetBranchHeadCall ''r'' ''main'' :: (string, unit) call]"
  have h: "UpdateFileErr (New :: string MockClient) = None"
    "CreateBranchErr (New :: string MockClient) = None"
    "CreatePullRequestErr (New :: string MockClient) = None"
    by (simp_all add: New_def)
  have quiet: "\<not> list_ex interaction (fst (script ?cs (New :: string MockClient)))"
    by (simp add: interaction_def GetFile_def GetBranchHead_def AddFileContents_def
        AddBranchHead_def New_def split: option.splits)
  note AssertNoInteractions_after_script
    [where cs = ?cs and m = "New :: string MockClient" and repo = "''r''" and branch = "''main''"
       and path = "''a.txt''" and message = "''msg''" and previousSHA = "''sha''"
       and signature = "()" and content = "Some [1]" and sha = "''abc''" and inp = "''input''"
       and ref = "''main''" and body = None]
  with h quiet show ?thesis by blast
qed

text \<open>
  Claim C7 as it is written fails: an \<^verbatim>\<open>UpdateFile\<close> call made while \<^verbatim>\<open>UpdateFileErr\<close>
  is set has occurred, yet it records nothing and \<^verbatim>\<open>AssertNoInteractions\<close> still returns
  normally.
\<close>

theorem AssertNoInteractions_call_without_record:
  "fst (UpdateFile ((New :: string MockClient)\<lparr>UpdateFileErr := Some (errors_New ''down'')\<rparr>)
          ''r'' ''main'' ''a.txt'' ''msg'' ''sha'' () (Some [1])) = Some (errors_New ''down'')
   \<and> AssertNoInteractions
       (snd (UpdateFile ((New :: string MockClient)\<lparr>UpdateFileErr := Some (errors_New ''down'')\<rparr>)
          ''r'' ''main'' ''a.txt'' ''msg'' ''sha'' () (Some [1]))) = None"
  by (simp add: UpdateFile_def AssertNoInteractions_def New_def len_def)

subsection \<open>Fixtures and observations\<close>

text \<open>
  Claim C8. No sequence of \<^verbatim>\<open>UpdateFile\<close>, \<^verbatim>\<open>CreateBranch\<close> and \<^verbatim>\<open>CreatePullRequest\<close>
  calls changes what \<^verbatim>\<open>GetFile\<close> or \<^verbatim>\<open>GetBranchHead\<close> returns, and no sequence of
  \<^verbatim>\<open>AddFileContents\<close> and \<^verbatim>\<open>AddBranchHead\<close> calls changes what \<^verbatim>\<open>GetUpdatedContents\<close>
  returns or the outcome of an assertion on created branches or pull requests.
\<close>

theorem fixtures_and_observations_disjoint:
  fixes ws ss :: "('inp, 'sig) call list" and m :: "'inp MockClient"
  assumes "list_all is_write ws" and "list_all is_seed ss"
  shows "fst (GetFile (snd (script ws m)) repo ref path) = fst (GetFile m repo ref path)
       \<and> fst (GetBranchHead (snd (script ws m)) repo branch) = fst (GetBranchHead m repo branch)
       \<and> GetUpdatedContents (snd (script ss m)) repo path ref = GetUpdatedContents m repo path ref
       \<and> AssertBranchCreated (snd (script ss m)) repo branch sha = AssertBranchCreated m repo branch sha
       \<and> RefuteBranchCreated (snd (script ss m)) repo branch sha = RefuteBranchCreated m repo branch sha
       \<and> AssertNoBranchesCreated (snd (script ss m)) = AssertNoBranchesCreated m
       \<and> AssertPullRequestCreated (snd (script ss m)) repo inp = AssertPullRequestCreated m repo inp
       \<and> RefutePullRequestCreated (snd (script ss m)) repo inp = RefutePullRequestCreated m repo inp
       \<and> AssertNoPullRequestsCreated (snd (script ss m)) = AssertNoPullRequestsCreated m"
proof -
  note ws = writes_frame [OF assms(1), of m]
  from ws have 1: "fst (GetFile (snd (script ws m)) repo ref path) = fst (GetFile m repo ref path)"
    by (intro GetFile_cong) simp_all
  from ws have 2: "fst (GetBranchHead (snd (script ws m)) repo branch) = fst (GetBranchHead m repo branch)"
    by (intro GetBranchHead_cong) simp
  note ss = seeds_frame [OF assms(2), of m]
  from ss have 3: "GetUpdatedContents (snd (script ss m)) repo path ref = GetUpdatedContents m repo path ref"
    by (simp add: GetUpdatedContents_def)
  from ss have 4: "AssertBranchCreated (snd (script ss m)) repo branch sha = AssertBranchCreated m repo branch sha"
    by (simp add: AssertBranchCreated_def)
  from ss have 5: "RefuteBranchCreated (snd (script ss m)) repo branch sha = RefuteBranchCreated m repo branch sha"
    by (simp add: RefuteBranchCreated_def)
  from ss have 6: "AssertNoBranchesCreated (snd (script ss m)) = AssertNoBranchesCreated m"
    by (simp add: AssertNoBranchesCreated_def)
  from ss have 7: "AssertPullRequestCreated (snd (script ss m)) repo inp = AssertPullRequestCreated m repo inp"
    by (simp add: AssertPullRequestCreated_def pullRequestsOf_def)
  from ss have 8: "RefutePullRequestCreated (snd (script ss m)) repo inp = RefutePullRequestCreated m repo inp"
    by (simp add: RefutePullRequestCreated_def pullRequestsOf_def)
  from ss have 9: "AssertNoPullRequestsCreated (snd (script ss m)) = AssertNoPullRequestsCreated m"
    by (simp add: AssertNoPullRequestsCreated_def)
  from 1 2 3 4 5 6 7 8 9 show ?thesis by blast
qed

theorem fixtures_and_observations_disjoint_witness:
  "list_all is_write
     [UpdateFileCall ''r'' ''main'' ''a.txt'' ''msg'' ''sha'' () (Some [2]),
      CreateBranchCall ''r'' ''main'' ''abc'',
      CreatePullRequestCall ''r'' ''input'' :: (string, unit) call]
   \<and> list_all is_seed
     [AddFileContentsCall ''r'' ''a.txt'' ''main'' (Some [3]),
      AddBranchHeadCall ''r'' ''main'' ''def'' :: (string, unit) call]
   \<and> fst (GetFile
       (snd (script
          [UpdateFileCall ''r'' ''main'' ''a.txt'' ''msg'' ''sha'' () (Some [2]),
           CreateBranchCall ''r'' ''main'' ''abc'',
           CreatePullRequestCall ''r'' ''input'' :: (string, unit) call]
          (AddFileContents New ''r'' ''a.txt'' ''main'' (Some [1]))))
       ''r'' ''main'' ''a.txt'') =
     (Some \<lparr>Data = Some [1], Sha = bytesSha1 (Some [1])\<rparr>, None)
   \<and> GetUpdatedContents
       (snd (script
          [AddFileContentsCall ''r'' ''a.txt'' ''main'' (Some [3]),
           AddBranchHeadCall ''r'' ''main'' ''def'' :: (string, unit) call]
          (AddFileContents New ''r'' ''a.txt'' ''main'' (Some [1]))))
       ''r'' ''a.txt'' ''main'' = None"
proof -
  let ?ws = "[UpdateFileCall ''r'' ''main'' ''a.txt'' ''msg'' ''sha'' () (Some [2]),
      CreateBranchCall ''r'' ''main'' ''abc'',
      CreatePullRequestCall ''r'' ''input'' :: (string, unit) call]"
  let ?ss = "[AddFileContentsCall ''r'' ''a.txt'' ''main'' (Some [3]),
      AddBranchHeadCall ''r'' ''main'' ''def'' :: (string, unit) call]"
  let ?m = "AddFileContents (New :: string MockClient) ''r'' ''a.txt'' ''main'' (Some [1])"
  have w: "list_all is_write ?ws" by simp
  have s: "list_all is_seed ?ss" by simp
  have g: "fst (GetFile ?m ''r'' ''main'' ''a.txt'') =
      (Some \<lparr>Data = Some [1], Sha = bytesSha1 (Some [1])\<rparr>, None)"
    by (simp add: GetFile_def AddFileContents_def New_def)
  have u: "GetUpdatedContents ?m ''r'' ''a.txt'' ''main'' = None"
    by (simp add: GetUpdatedContents_def AddFileContents_def New_def)
  note fixtures_and_observations_disjoint
    [OF w s, where m = ?m and repo = "''r''" and ref = "''main''" and path = "''a.txt''"
       and branch = "''main''" and sha = "''abc''" and inp = "''input''"]
  with w s g u show ?thesis by (simp only:) 
qed

subsection \<open>Deleting a file\<close>

text \<open>
  Claim C9. \<^verbatim>\<open>DeleteFile\<close> fails with \<^verbatim>\<open>scm.ErrNotSupported\<close> for every combination of
  arguments and every client, whatever its tables and error fields hold, and returns
  the client as it was: no table changes.
\<close>

theorem DeleteFile_unsupported:
  "DeleteFile c repo branch path message previousSHA signature content = (Some ErrNotSupported, c)"
  by (simp add: DeleteFile_def)

subsection \<open>Contents that were never updated\<close>

text \<open>
  Claim C10. \<^verbatim>\<open>GetUpdatedContents\<close> returns a byte slice and nothing else: it has no
  error result and no \<^verbatim>\<open>Fatalf\<close>. For a key with no entry in \<^verbatim>\<open>updatedFiles\<close> it
  returns \<^verbatim>\<open>nil\<close>; and after any script run on a new client, a key that no
  \<^verbatim>\<open>UpdateFile\<close> call recorded content under has no entry, so \<^verbatim>\<open>nil\<close> is returned.
\<close>

theorem GetUpdatedContents_absent:
  fixes cs :: "('inp, 'sig) call list" and m :: "'inp MockClient"
  shows "(fmlookup (updatedFiles m) (key [repo, path, ref]) = None \<longrightarrow>
            GetUpdatedContents m repo path ref = None)
       \<and> (key [repo, path, ref] \<notin> set (List.map_filter updatedKey (fst (script cs (New :: 'inp MockClient)))) \<longrightarrow>
            GetUpdatedContents (snd (script cs (New :: 'inp MockClient))) repo path ref = None)"
proof -
  have state: "GetUpdatedContents m' repo path ref = None"
    if "fmlookup (updatedFiles m') (key [repo, path, ref]) = None" for m' :: "'inp MockClient"
    using that by (simp add: GetUpdatedContents_def)
  have "fmlookup (updatedFiles (snd (script cs (New :: 'inp MockClient)))) (key [repo, path, ref]) = None"
    if "key [repo, path, ref] \<notin> set (List.map_filter updatedKey (fst (script cs (New :: 'inp MockClient))))"
  proof -
    from that have "key [repo, path, ref] |\<notin>| fmdom (updatedFiles (snd (script cs (New :: 'inp MockClient))))"
      by (simp add: updatedFiles_script New_def fset_of_list.rep_eq)
    then show ?thesis by (simp add: fmdom_notD)
  qed
  with state show ?thesis by blast
qed

theorem GetUpdatedContents_absent_witness:
  "fmlookup (updatedFiles (New :: string MockClient)) (key [''r'', ''a.txt'', ''feature'']) = None
   \<and> key [''r'', ''a.txt'', ''feature'']
        \<notin> set (List.map_filter updatedKey
            (fst (script [UpdateFileCall ''r'' ''main'' ''a.txt'' ''msg'' ''sha'' () (Some [1])]
               (New :: string MockClient))))
   \<and> GetUpdatedContents (New :: string MockClient) ''r'' ''a.txt'' ''feature'' = None
   \<and> GetUpdatedContents
        (snd (script [UpdateFileCall ''r'' ''main'' ''a.txt'' ''msg'' ''sha'' () (Some [1])]
           (New :: string MockClient))) ''r'' ''a.txt'' ''feature'' = None"
  using GetUpdatedContents_absent
    [of "New :: string MockClient" "''r''" "''a.txt''" "''feature''"
        "[UpdateFileCall ''r'' ''main'' ''a.txt'' ''msg'' ''sha'' () (Some [1])]"]
  by (simp add: New_def UpdateFile_def key_def)

end
